theory Spec2Isabelle
  imports Main
begin

text \<open>
  The Mongo reader and the pandas query of \<open>gpt_index\<close> are embedded from their
  sources. The chunk size of \<open>PromptHelper\<close> belongs to a module that is not among the
  sources; it is modelled from the specification and from the tests that pin it down,
  and each such definition says so. Definitions come first, properties after them.
\<close>

section \<open>Python values shared by the modules\<close>

text \<open>
  A raised Python exception, as far as the handlers of this repository look at it: whether
  it is an instance of \<open>Exception\<close> (\<open>SystemExit\<close>, \<open>KeyboardInterrupt\<close> and
  \<open>GeneratorExit\<close> derive from \<open>BaseException\<close> only), the name of its class, and the
  message it was raised with.
\<close>

datatype py_exc = PyExc (is_Exception: bool) (exc_class: string) (exc_message: string)

abbreviation ValueError :: "string \<Rightarrow> py_exc" where
  "ValueError msg \<equiv> PyExc True ''ValueError'' msg"

abbreviation ImportError :: "string \<Rightarrow> py_exc" where
  "ImportError msg \<equiv> PyExc True ''ImportError'' msg"

abbreviation TypeError :: "string \<Rightarrow> py_exc" where
  "TypeError msg \<equiv> PyExc True ''TypeError'' msg"

text \<open>Python's truth value of an \<open>Optional[str]\<close>: \<open>None\<close> and the empty string are false.\<close>

fun truthy :: "string option \<Rightarrow> bool" where
  "truthy None = False"
| "truthy (Some s) = (s \<noteq> [])"

section \<open>The Mongo reader: \<open>gpt_index/readers/mongo.py\<close>\<close>

text \<open>
  A Mongo document is a dictionary; \<open>Document(item["text"])\<close> keeps the value stored
  under the key \<open>text\<close>.
\<close>

type_synonym 'v mongo_item = "string \<rightharpoonup> 'v"

datatype 'v Document = Document (doc_text: 'v)

text \<open>
  The \<open>pymongo\<close> package is an external collaborator. What the reader uses of it:
  whether the import succeeds, the two ways of building a \<open>MongoClient\<close>, and
  \<open>client[db_name][collection_name].find(...)\<close>, whose cursor is the list of the items
  it yields, in the order it yields them. \<open>find()\<close> without a query is the argument
  \<open>None\<close>.
\<close>

record ('c, 'q, 'v) pymongo =
  import_ok :: bool
  MongoClient_uri :: "string \<Rightarrow> 'c"
  MongoClient_host_port :: "string \<Rightarrow> int \<Rightarrow> 'c"
  collection_find :: "'c \<Rightarrow> string \<Rightarrow> string \<Rightarrow> 'q option \<Rightarrow> 'v mongo_item list"

record 'c SimpleMongoReader =
  client :: 'c
  max_docs :: int

text \<open>
  \<open>SimpleMongoReader.__init__(host, port, uri, max_docs)\<close>. The test of the source is
  \<open>uri and uri is None or not uri and (host is None or port is None)\<close>; its first
  disjunct can never hold.
\<close>

definition SimpleMongoReader_init ::
  "('c, 'q, 'v) pymongo \<Rightarrow> string option \<Rightarrow> int option \<Rightarrow> string option \<Rightarrow> int
     \<Rightarrow> py_exc + 'c SimpleMongoReader" where
  "SimpleMongoReader_init pm host port uri mx =
     (if \<not> import_ok pm then
        Inl (ImportError ''`pymongo` package not found, please run `pip install pymongo`'')
      else if (truthy uri \<and> uri = None) \<or> (\<not> truthy uri \<and> (host = None \<or> port = None)) then
        Inl (ValueError ''Either `host` and `port` or `uri` must be provided.'')
      else if truthy uri then
        (case uri of
           Some u \<Rightarrow> Inr \<lparr>client = MongoClient_uri pm u, max_docs = mx\<rparr>
         | None \<Rightarrow> Inl (ValueError ''Either `host` and `port` or `uri` must be provided.''))
      else
        (case (host, port) of
           (Some h, Some p) \<Rightarrow> Inr \<lparr>client = MongoClient_host_port pm h p, max_docs = mx\<rparr>
         | _ \<Rightarrow> Inl (ValueError ''Either `host` and `port` or `uri` must be provided.'')))"

text \<open>
  The loop of \<open>load_data\<close>: \<open>for item in cursor\<close>, raising at the first item without a
  \<open>text\<close> key, appending a \<open>Document\<close> otherwise. \<open>documents\<close> is the list built so far.
\<close>

fun load_loop :: "'v mongo_item list \<Rightarrow> 'v Document list \<Rightarrow> py_exc + 'v Document list" where
  "load_loop [] documents = Inr documents"
| "load_loop (item # cursor) documents =
     (case item ''text'' of
        None \<Rightarrow> Inl (ValueError ''`text` field not found in Mongo document.'')
      | Some t \<Rightarrow> load_loop cursor (documents @ [Document t]))"

definition load_data ::
  "('c, 'q, 'v) pymongo \<Rightarrow> 'c SimpleMongoReader \<Rightarrow> string \<Rightarrow> string \<Rightarrow> 'q option
     \<Rightarrow> py_exc + 'v Document list" where
  "load_data pm self db_name collection_name query_dict =
     load_loop (collection_find pm (client self) db_name collection_name query_dict) []"

text \<open>A \<open>pymongo\<close> whose every collection yields the given items.\<close>

definition fixed_cursor :: "string mongo_item list \<Rightarrow> (unit, unit, string) pymongo" where
  "fixed_cursor items =
     \<lparr>import_ok = True,
      MongoClient_uri = (\<lambda>u. ()),
      MongoClient_host_port = (\<lambda>h p. ()),
      collection_find = (\<lambda>c db_name collection_name query_dict. items)\<rparr>"

section \<open>The pandas query: \<open>gpt_index/indices/struct_store/pandas_query.py\<close>\<close>

text \<open>
  The code that \<open>exec\<close> and \<open>eval\<close> run comes from the LLM. It can change the state of
  the interpreter process (replace \<open>sys.stderr\<close>, define classes), and what later calls
  do depends on that state. So every call of the processor and of \<open>query\<close> is a
  computation over the state \<open>'w\<close> of the process: it returns a value or raises, and
  leaves a state.
\<close>

type_synonym ('w, 'a) py = "'w \<Rightarrow> (py_exc + 'a) \<times> 'w"

definition return_py :: "'a \<Rightarrow> ('w, 'a) py" where
  "return_py x w = (Inr x, w)"

definition raise_py :: "py_exc \<Rightarrow> ('w, 'a) py" where
  "raise_py e w = (Inl e, w)"

text \<open>One statement after another: the second runs only if the first did not raise.\<close>

definition bind_py :: "('w, 'a) py \<Rightarrow> ('a \<Rightarrow> ('w, 'b) py) \<Rightarrow> ('w, 'b) py" where
  "bind_py m f w =
     (case m w of
        (Inl e, w') \<Rightarrow> (Inl e, w')
      | (Inr x, w') \<Rightarrow> f x w')"

text \<open>\<open>try: body except Exception as e: handler(e)\<close>: only instances of \<open>Exception\<close> are caught.\<close>

definition try_except_Exception ::
  "('w, 'a) py \<Rightarrow> (py_exc \<Rightarrow> ('w, 'a) py) \<Rightarrow> ('w, 'a) py" where
  "try_except_Exception body handler w =
     (case body w of
        (Inr x, w') \<Rightarrow> (Inr x, w')
      | (Inl e, w') \<Rightarrow> if is_Exception e then handler e w' else (Inl e, w'))"

text \<open>
  The Python interpreter and the libraries are external collaborators. What the
  processor and \<open>query\<close> use of them: the version test \<open>sys.version_info < (3, 9)\<close>,
  \<open>logger.warn\<close>, \<open>ast.parse\<close> (giving \<open>tree.body\<close>, a list of statements),
  \<open>ast.unparse\<close> of a module built from statements, \<open>exec\<close> and \<open>eval\<close> with empty
  globals over the dictionary \<open>local_vars\<close> (which \<open>exec\<close> may change), \<open>str\<close> of a
  value, \<open>traceback.print_exc()\<close> and \<open>str(e)\<close> of the exception in the handler,
  \<open>str(df.head(n))\<close>, and \<open>print_text\<close>. Each of them can raise.
\<close>

record ('w, 't, 'v) python =
  version_lt_3_9 :: bool
  logger_warn :: "('w, unit) py"
  ast_parse :: "string \<Rightarrow> ('w, 't list) py"
  ast_unparse :: "'t list \<Rightarrow> ('w, string) py"
  py_exec :: "string \<Rightarrow> (string \<rightharpoonup> 'v) \<Rightarrow> ('w, string \<rightharpoonup> 'v) py"
  py_eval :: "string \<Rightarrow> (string \<rightharpoonup> 'v) \<Rightarrow> ('w, 'v) py"
  py_str :: "'v \<Rightarrow> ('w, string) py"
  print_exc :: "py_exc \<Rightarrow> ('w, unit) py"
  exc_str :: "py_exc \<Rightarrow> ('w, string) py"
  df_head_str :: "'v \<Rightarrow> int \<Rightarrow> ('w, string) py"
  print_text :: "string \<Rightarrow> ('w, unit) py"

text \<open>The slice \<open>body[-1:]\<close>; \<open>body[:-1]\<close> is \<^const>\<open>butlast\<close>.\<close>

definition last_slice :: "'a list \<Rightarrow> 'a list" where
  "last_slice body = (if body = [] then [] else [last body])"

text \<open>
  The body of the outer \<open>try\<close> of \<open>default_output_processor\<close>: parse the output, \<open>exec\<close>
  all statements but the last over \<open>{"df": df}\<close>, \<open>eval\<close> the last one and return its
  \<open>str\<close>. The inner handler re-raises what it caught.
\<close>

definition run_output :: "('w, 't, 'v) python \<Rightarrow> string \<Rightarrow> 'v \<Rightarrow> ('w, string) py" where
  "run_output py output df =
     bind_py (ast_parse py output) (\<lambda>body.
     bind_py (ast_unparse py (butlast body)) (\<lambda>module_str.
     bind_py (py_exec py module_str [''df'' \<mapsto> df]) (\<lambda>local_vars.
     bind_py (ast_unparse py (last_slice body)) (\<lambda>module_end_str.
       try_except_Exception
         (bind_py (py_eval py module_end_str local_vars) (py_str py))
         raise_py))))"

definition error_prefix :: string where
  "error_prefix = ''There was an error running the output as Python code. Error message: ''"

text \<open>
  The handler of the outer \<open>try\<close>: \<open>traceback.print_exc()\<close>, then the f-string
  \<open>f"There was an error ... Error message: {e}"\<close>, which calls \<open>str(e)\<close>. An exception
  raised by either of the two leaves the handler.
\<close>

definition error_handler :: "('w, 't, 'v) python \<Rightarrow> py_exc \<Rightarrow> ('w, string) py" where
  "error_handler py e =
     bind_py (print_exc py e) (\<lambda>u.
     bind_py (exc_str py e) (\<lambda>msg.
       return_py (error_prefix @ msg)))"

text \<open>
  The keyword arguments \<open>**output_kwargs\<close> are a dictionary with text keys, in the
  order of its items. Calling a function whose parameters are \<open>output\<close>, \<open>df\<close> and
  \<open>**output_kwargs\<close> with two positional arguments and these keyword arguments fails
  with a \<open>TypeError\<close> when a key is \<open>output\<close> or \<open>df\<close>; the message names the first
  such key.
\<close>

definition conflicting_key :: "(string \<times> 'v) list \<Rightarrow> string option" where
  "conflicting_key output_kwargs =
     List.find (\<lambda>k. k = ''output'' \<or> k = ''df'') (map fst output_kwargs)"

definition py_quote :: "string \<Rightarrow> string" where
  "py_quote s = [CHR 0x27] @ s @ [CHR 0x27]"

definition multiple_values :: "string \<Rightarrow> py_exc" where
  "multiple_values k =
     TypeError (''default_output_processor() got multiple values for argument '' @ py_quote k)"

text \<open>
  \<open>default_output_processor(output, df, **output_kwargs)\<close>, called as \<open>query\<close> calls
  it. Below Python 3.9 it logs a warning and returns the raw output; otherwise it runs
  the output and hands an \<open>Exception\<close> to the handler. The keyword arguments are not
  used by the body.
\<close>

definition default_output_processor ::
  "('w, 't, 'v) python \<Rightarrow> string \<Rightarrow> 'v \<Rightarrow> (string \<times> 'v) list \<Rightarrow> ('w, string) py" where
  "default_output_processor py output df output_kwargs =
     (case conflicting_key output_kwargs of
        Some k \<Rightarrow> raise_py (multiple_values k)
      | None \<Rightarrow>
          if version_lt_3_9 py then bind_py (logger_warn py) (\<lambda>u. return_py output)
          else try_except_Exception (run_output py output df) (error_handler py))"


text \<open>
  The fields of a \<open>GPTNLPandasIndexQuery\<close> that \<open>query\<close> reads. \<open>predict\<close> is
  \<open>self._service_context.llm_predictor.predict\<close>, called with the prompt and the keyword
  arguments \<open>df_str\<close>, \<open>query_str\<close> and \<open>instruction_str\<close>; it returns the completion
  and the formatted prompt, or raises. \<open>verbose\<close> is the \<open>_verbose\<close> that the base
  class sets.
\<close>

record ('w, 'v, 'p) GPTNLPandasIndexQuery =
  df :: 'v
  head :: int
  pandas_prompt :: 'p
  instruction_str :: string
  output_processor :: "string \<Rightarrow> 'v \<Rightarrow> (string \<times> 'v) list \<Rightarrow> ('w, string) py"
  output_kwargs :: "(string \<times> 'v) list"
  predict :: "'p \<Rightarrow> string \<Rightarrow> string \<Rightarrow> string \<Rightarrow> ('w, string \<times> string) py"
  verbose :: bool












section \<open>The tokenizer of the tests: \<open>tests/indices/response/test_response_builder.py\<close>\<close>

text \<open>Python's \<open>text.split(c)\<close> for a separator of one character.\<close>

fun split_char :: "char \<Rightarrow> string \<Rightarrow> string list" where
  "split_char c [] = [[]]"
| "split_char c (x # xs) =
     (if x = c then [] # split_char c xs
      else (case split_char c xs of
              w # ws \<Rightarrow> (x # w) # ws
            | [] \<Rightarrow> [[x]]))"

text \<open>\<open>mock_tokenizer\<close>: no token for the empty text, otherwise \<open>text.split(" ")\<close>.\<close>

definition mock_tokenizer :: "string \<Rightarrow> string list" where
  "mock_tokenizer text = (if text = [] then [] else split_char (CHR '' '') text)"

section \<open>PromptHelper: the chunk size\<close>

text \<open>
  Modelled from the spec: the configuration of a \<open>PromptHelper\<close> (spec 3,
  PromptHelperConfig), whose module \<open>gpt_index/indices/prompt_helper.py\<close> is not among
  the sources. The fields are those the tests pass to the constructor:
  \<open>PromptHelper(max_input_size, num_output, max_chunk_overlap, tokenizer=...,
  separator=..., chunk_size_limit=...)\<close>.
\<close>

record PromptHelper =
  max_input_size :: int
  num_output :: int
  max_chunk_overlap :: int
  tokenizer :: "string \<Rightarrow> string list"
  separator :: string
  chunk_size_limit :: "int option"

text \<open>
  Modelled from the spec: the error of section 7, "PromptHelper cannot fit even one chunk
  of positive size under the given template/padding/output reservation".
\<close>

datatype prompt_error = BudgetExceededError

text \<open>
  Modelled from the spec: the token count of the prompt (spec 4.1: "token counts are
  always measured with this function", the configured tokenizer).
\<close>

definition num_prompt_tokens :: "PromptHelper \<Rightarrow> string \<Rightarrow> int" where
  "num_prompt_tokens self prompt_text = int (length (tokenizer self prompt_text))"

text \<open>
  Modelled from the spec: the size that \<open>PromptHelper.get_chunk_size_given_prompt\<close>
  computes before the cap. The spec (4.1): the number of tokens available per chunk so
  that \<open>num_chunks\<close> chunks of that size plus the prompt plus the reserved output tokens
  all fit within \<open>max_input_size\<close>, after subtracting \<open>padding\<close> tokens of safety margin
  per chunk boundary. The order of the steps is the one the comments of
  \<open>test_response_builder.py\<close> spell out: "max input size is 12, prompt tokens is 2 --> 10
  tokens for 2 chunks --> 5 tokens per chunk, 1 is padding --> 4 tokens per chunk".
\<close>

definition available_budget :: "PromptHelper \<Rightarrow> string \<Rightarrow> int \<Rightarrow> int \<Rightarrow> int" where
  "available_budget self prompt_text num_chunks padding =
     (max_input_size self - num_prompt_tokens self prompt_text - num_output self) div num_chunks
       - padding"

text \<open>
  Modelled from the spec: \<open>PromptHelper.get_chunk_size_given_prompt\<close>, whose module
  \<open>gpt_index/indices/prompt_helper.py\<close> is not among the sources. The spec (4.1 and 3):
  an error, not a clamped value, if the available budget is not positive;
  \<open>chunk_size_limit\<close> is a hard cap that overrides the computed size. The spec speaks of
  one chunk or more; a request for no chunk leaves no budget per chunk and is an error as
  well.
\<close>

definition get_chunk_size_given_prompt ::
  "PromptHelper \<Rightarrow> string \<Rightarrow> int \<Rightarrow> int \<Rightarrow> prompt_error + int" where
  "get_chunk_size_given_prompt self prompt_text num_chunks padding =
     (let result = available_budget self prompt_text num_chunks padding
      in if num_chunks \<le> 0 \<or> result \<le> 0 then Inl BudgetExceededError
         else (case chunk_size_limit self of
                 None \<Rightarrow> Inr result
               | Some limit \<Rightarrow> Inr (min result limit)))"

text \<open>
  The inequality the chunk size is computed for: the prompt, the reserved output and
  \<open>num_chunks\<close> chunks of \<open>c\<close> tokens, each with its \<open>padding\<close>, fit the input size.
\<close>

definition fits_padded :: "PromptHelper \<Rightarrow> string \<Rightarrow> int \<Rightarrow> int \<Rightarrow> int \<Rightarrow> bool" where
  "fits_padded self prompt_text num_chunks padding c =
     (num_prompt_tokens self prompt_text + num_output self + num_chunks * (c + padding)
        \<le> max_input_size self)"

text \<open>
  The helper of \<open>test_compact_response\<close>:
  \<open>PromptHelper(11, 0, 0, tokenizer=mock_tokenizer, separator="\n\n", chunk_size_limit=4)\<close>.
\<close>

definition compact_test_helper :: PromptHelper where
  "compact_test_helper =
     \<lparr>max_input_size = 11, num_output = 0, max_chunk_overlap = 0,
      tokenizer = mock_tokenizer, separator = ''\<newline>\<newline>'',
      chunk_size_limit = Some 4\<rparr>"

section \<open>Properties of the Mongo reader\<close>

lemma load_loop_missing:
  "\<exists>item \<in> set cursor. item ''text'' = None \<Longrightarrow>
   load_loop cursor documents = Inl (ValueError ''`text` field not found in Mongo document.'')"
proof (induction cursor arbitrary: documents)
  case Nil
  then show ?case by simp
next
  case (Cons item cursor)
  show ?case
  proof (cases "item ''text''")
    case None
    then show ?thesis by simp
  next
    case (Some t)
    with Cons.prems have "\<exists>i \<in> set cursor. i ''text'' = None" by auto
    with Cons.IH Some show ?thesis by simp
  qed
qed

lemma load_loop_all:
  "\<forall>item \<in> set cursor. item ''text'' \<noteq> None \<Longrightarrow>
   load_loop cursor documents =
     Inr (documents @ map (\<lambda>item. Document (the (item ''text''))) cursor)"
proof (induction cursor arbitrary: documents)
  case Nil
  then show ?case by simp
next
  case (Cons item cursor)
  from Cons.prems obtain t where t: "item ''text'' = Some t" by auto
  from Cons.prems have "\<forall>i \<in> set cursor. i ''text'' \<noteq> None" by simp
  with Cons.IH t show ?case by simp
qed

lemma SimpleMongoReader_init_uri:
  "import_ok pm \<Longrightarrow> u \<noteq> [] \<Longrightarrow>
   SimpleMongoReader_init pm host port (Some u) m
     = Inr \<lparr>client = MongoClient_uri pm u, max_docs = m\<rparr>"
  by (simp add: SimpleMongoReader_init_def)

lemma SimpleMongoReader_init_host_port:
  "import_ok pm \<Longrightarrow> \<not> truthy uri \<Longrightarrow>
   SimpleMongoReader_init pm (Some h) (Some p) uri m
     = Inr \<lparr>client = MongoClient_host_port pm h p, max_docs = m\<rparr>"
  by (simp add: SimpleMongoReader_init_def)

text \<open>
  Claim C9. \<open>load_data\<close> raises \<open>ValueError\<close> when some item of the cursor has no
  \<open>text\<close> key; otherwise it returns one \<open>Document\<close> per item of the cursor, in the
  cursor's order, so as many documents as the cursor has items. The constructor, given
  a non-empty \<open>uri\<close>, or no \<open>uri\<close> and both \<open>host\<close> and \<open>port\<close>, returns a reader
  that stores the \<open>max_docs\<close> it was given (and whenever it returns a reader, that
  reader stores it). The stored \<open>max_docs\<close> plays no part in \<open>load_data\<close>: a reader
  with any other \<open>max_docs\<close> gives the same result, so the result is not cut down to
  \<open>max_docs\<close> documents.
\<close>

theorem load_data_one_document_per_item:
  "(let cursor = collection_find pm (client self) db_name collection_name query_dict;
        result = load_data pm self db_name collection_name query_dict
    in (if \<exists>item \<in> set cursor. ''text'' \<notin> dom item
        then result = Inl (ValueError ''`text` field not found in Mongo document.'')
        else result = Inr (map (\<lambda>item. Document (the (item ''text''))) cursor)
           \<and> (\<exists>docs. result = Inr docs \<and> length docs = length cursor))
     \<and> load_data pm (self\<lparr>max_docs := m\<rparr>) db_name collection_name query_dict = result
     \<and> (\<forall>r. SimpleMongoReader_init pm host port uri m = Inr r \<longrightarrow> max_docs r = m)
     \<and> (\<forall>u. import_ok pm \<and> uri = Some u \<and> u \<noteq> [] \<longrightarrow>
            SimpleMongoReader_init pm host port uri m
              = Inr \<lparr>client = MongoClient_uri pm u, max_docs = m\<rparr>)
     \<and> (\<forall>h p. import_ok pm \<and> \<not> truthy uri \<and> host = Some h \<and> port = Some p \<longrightarrow>
            SimpleMongoReader_init pm host port uri m
              = Inr \<lparr>client = MongoClient_host_port pm h p, max_docs = m\<rparr>))"
proof -
  let ?cursor = "collection_find pm (client self) db_name collection_name query_dict"
  have bad: "\<exists>item \<in> set ?cursor. ''text'' \<notin> dom item \<Longrightarrow>
      load_loop ?cursor [] = Inl (ValueError ''`text` field not found in Mongo document.'')"
    by (rule load_loop_missing) (simp add: domIff)
  have good: "\<not> (\<exists>item \<in> set ?cursor. ''text'' \<notin> dom item) \<Longrightarrow>
      load_loop ?cursor [] = Inr (map (\<lambda>item. Document (the (item ''text''))) ?cursor)"
    using load_loop_all [of ?cursor "[]"] by (simp add: domIff)
  have stored: "\<forall>r. SimpleMongoReader_init pm host port uri m = Inr r \<longrightarrow> max_docs r = m"
    by (auto simp: SimpleMongoReader_init_def split: if_splits option.splits)
  have by_uri: "\<forall>u. import_ok pm \<and> uri = Some u \<and> u \<noteq> [] \<longrightarrow>
            SimpleMongoReader_init pm host port uri m
              = Inr \<lparr>client = MongoClient_uri pm u, max_docs = m\<rparr>"
    by (simp add: SimpleMongoReader_init_uri)
  have by_host: "\<forall>h p. import_ok pm \<and> \<not> truthy uri \<and> host = Some h \<and> port = Some p \<longrightarrow>
            SimpleMongoReader_init pm host port uri m
              = Inr \<lparr>client = MongoClient_host_port pm h p, max_docs = m\<rparr>"
    by (simp add: SimpleMongoReader_init_host_port)
  from bad good have "if \<exists>item \<in> set ?cursor. ''text'' \<notin> dom item
        then load_data pm self db_name collection_name query_dict
               = Inl (ValueError ''`text` field not found in Mongo document.'')
        else load_data pm self db_name collection_name query_dict
               = Inr (map (\<lambda>item. Document (the (item ''text''))) ?cursor)
           \<and> (\<exists>docs. load_data pm self db_name collection_name query_dict = Inr docs
                 \<and> length docs = length ?cursor)"
    by (simp add: load_data_def)
  moreover have "load_data pm (self\<lparr>max_docs := m\<rparr>) db_name collection_name query_dict
      = load_data pm self db_name collection_name query_dict"
    by (simp add: load_data_def)
  ultimately show ?thesis
    using stored by_uri by_host unfolding Let_def by blast
qed

text \<open>
  The witness: the constructor, called with a host, a port and \<open>max_docs = 2\<close>, returns
  a reader that stores 2; that reader reads a cursor of three items into three
  documents, in the cursor's order; on a cursor whose second item has no \<open>text\<close> it
  raises the error. Called with a \<open>uri\<close>, the constructor returns a reader as well.
\<close>

theorem load_data_one_document_per_item_witness:
  "SimpleMongoReader_init
      (fixed_cursor [[''text'' \<mapsto> ''a''], [''text'' \<mapsto> ''b''],
         [''title'' \<mapsto> ''t'', ''text'' \<mapsto> ''c'']])
      (Some ''localhost'') (Some 27017) None 2
     = Inr \<lparr>client = (), max_docs = 2\<rparr>
   \<and> load_data (fixed_cursor [[''text'' \<mapsto> ''a''], [''text'' \<mapsto> ''b''],
        [''title'' \<mapsto> ''t'', ''text'' \<mapsto> ''c'']])
      \<lparr>client = (), max_docs = 2\<rparr> ''db'' ''coll'' None
     = Inr [Document ''a'', Document ''b'', Document ''c'']
   \<and> SimpleMongoReader_init
      (fixed_cursor [[''text'' \<mapsto> ''a''], [''title'' \<mapsto> ''t'']])
      None None (Some ''mongodb://localhost'') 2
     = Inr \<lparr>client = (), max_docs = 2\<rparr>
   \<and> load_data (fixed_cursor [[''text'' \<mapsto> ''a''], [''title'' \<mapsto> ''t'']])
      \<lparr>client = (), max_docs = 2\<rparr> ''db'' ''coll'' None
     = Inl (ValueError ''`text` field not found in Mongo document.'')"
  using load_data_one_document_per_item
      [of "fixed_cursor [[''text'' \<mapsto> ''a''], [''text'' \<mapsto> ''b''],
             [''title'' \<mapsto> ''t'', ''text'' \<mapsto> ''c'']]"
          "\<lparr>client = (), max_docs = 2\<rparr>" "''db''" "''coll''" None 2
          "Some ''localhost''" "Some 27017" None]
    load_data_one_document_per_item
      [of "fixed_cursor [[''text'' \<mapsto> ''a''], [''title'' \<mapsto> ''t'']]"
          "\<lparr>client = (), max_docs = 2\<rparr>" "''db''" "''coll''" None 2
          None None "Some ''mongodb://localhost''"]
  by (simp add: fixed_cursor_def Let_def)

section \<open>Properties of the pandas query\<close>

text \<open>An exception raised at a stage of the run is the exception of the run.\<close>

lemma run_output_parse_raises:
  "ast_parse py llm_output w = (Inl e, w') \<Longrightarrow> run_output py llm_output d w = (Inl e, w')"
  by (simp add: run_output_def bind_py_def)

lemma run_output_exec_raises:
  "ast_parse py llm_output w = (Inr body, w1) \<Longrightarrow>
   ast_unparse py (butlast body) w1 = (Inr module_str, w2) \<Longrightarrow>
   py_exec py module_str [''df'' \<mapsto> d] w2 = (Inl e, w3) \<Longrightarrow>
   run_output py llm_output d w = (Inl e, w3)"
  by (simp add: run_output_def bind_py_def)












section \<open>Properties of the chunk size\<close>

lemma div_times_le:
  fixes n b :: int
  assumes "0 < n"
  shows "n * (b div n) \<le> b"
proof -
  have "n * (b div n) + b mod n = b" by simp
  moreover from assms have "0 \<le> b mod n" by simp
  ultimately show ?thesis by linarith
qed

lemma le_div_of_times_le:
  fixes n x b :: int
  assumes "0 < n" and "n * x \<le> b"
  shows "x \<le> b div n"
proof -
  from assms have "(n * x) div n \<le> b div n" by (intro zdiv_mono1)
  moreover from assms(1) have "(n * x) div n = x" by simp
  ultimately show ?thesis by simp
qed

lemma budget_fits:
  assumes "0 < num_chunks"
  shows "fits_padded self prompt_text num_chunks padding
           (available_budget self prompt_text num_chunks padding)"
  using div_times_le [OF assms,
      of "max_input_size self - num_prompt_tokens self prompt_text - num_output self"]
  by (simp add: fits_padded_def available_budget_def)

lemma budget_maximal:
  assumes "0 < num_chunks" and "fits_padded self prompt_text num_chunks padding c"
  shows "c \<le> available_budget self prompt_text num_chunks padding"
proof -
  from assms(2) have "num_chunks * (c + padding)
      \<le> max_input_size self - num_prompt_tokens self prompt_text - num_output self"
    by (simp add: fits_padded_def)
  from le_div_of_times_le [OF assms(1) this] show ?thesis
    by (simp add: available_budget_def)
qed

lemma fits_padded_mono:
  assumes "0 < num_chunks" and "c' \<le> c" and "fits_padded self prompt_text num_chunks padding c"
  shows "fits_padded self prompt_text num_chunks padding c'"
proof -
  from assms(1,2) have "num_chunks * (c' + padding) \<le> num_chunks * (c + padding)"
    by (simp add: mult_left_mono)
  with assms(3) show ?thesis by (simp add: fits_padded_def)
qed

lemma compact_test_helper_budget: "available_budget compact_test_helper '''' 1 1 = 10"
  by (simp add: available_budget_def num_prompt_tokens_def compact_test_helper_def
      mock_tokenizer_def)

text \<open>
  Claim C1, as amended. For one chunk or more, a padding that is not negative and a
  positive budget, \<open>get_chunk_size_given_prompt\<close> returns a chunk size \<open>c\<close> with
  \<open>tokens(prompt) + num_output + num_chunks * (c + padding) \<le> max_input_size\<close>, hence
  also \<open>tokens(prompt) + num_output + num_chunks * c \<le> max_input_size\<close>; \<open>c\<close> is the
  largest integer with the padded inequality, unless \<open>chunk_size_limit\<close> is smaller than
  that largest integer, in which case \<open>c\<close> is \<open>chunk_size_limit\<close>. With
  \<open>max_input_size = 11\<close>, \<open>num_output = 0\<close>, the empty prompt, one chunk, padding 1 and
  \<open>chunk_size_limit = 4\<close> the result is 4.
\<close>

theorem chunk_size_fits_and_is_largest:
  assumes "0 < num_chunks" and "0 \<le> padding"
    and "0 < available_budget self prompt_text num_chunks padding"
  shows "(\<exists>c. get_chunk_size_given_prompt self prompt_text num_chunks padding = Inr c
       \<and> fits_padded self prompt_text num_chunks padding c
       \<and> num_prompt_tokens self prompt_text + num_output self + num_chunks * c
            \<le> max_input_size self
       \<and> (case chunk_size_limit self of
            None \<Rightarrow> (\<forall>c'. fits_padded self prompt_text num_chunks padding c' \<longrightarrow> c' \<le> c)
          | Some limit \<Rightarrow>
              if limit < available_budget self prompt_text num_chunks padding then c = limit
              else (\<forall>c'. fits_padded self prompt_text num_chunks padding c' \<longrightarrow> c' \<le> c)))
     \<and> get_chunk_size_given_prompt compact_test_helper '''' 1 1 = Inr 4"
proof -
  let ?b = "available_budget self prompt_text num_chunks padding"
  let ?c = "case chunk_size_limit self of None \<Rightarrow> ?b | Some limit \<Rightarrow> min ?b limit"
  have ret: "get_chunk_size_given_prompt self prompt_text num_chunks padding = Inr ?c"
    using assms(1,3) by (simp add: get_chunk_size_given_prompt_def Let_def split: option.split)
  have le: "?c \<le> ?b" by (simp split: option.split)
  have fits: "fits_padded self prompt_text num_chunks padding ?c"
    by (rule fits_padded_mono [OF assms(1) le budget_fits [OF assms(1)]])
  have "num_chunks * ?c \<le> num_chunks * (?c + padding)"
    using assms(1,2) by (simp add: mult_left_mono)
  with fits have plain: "num_prompt_tokens self prompt_text + num_output self + num_chunks * ?c
      \<le> max_input_size self"
    by (simp add: fits_padded_def)
  have largest: "case chunk_size_limit self of
          None \<Rightarrow> (\<forall>c'. fits_padded self prompt_text num_chunks padding c' \<longrightarrow> c' \<le> ?c)
        | Some limit \<Rightarrow>
            if limit < ?b then ?c = limit
            else (\<forall>c'. fits_padded self prompt_text num_chunks padding c' \<longrightarrow> c' \<le> ?c)"
    using budget_maximal [OF assms(1)] by (auto split: option.split)
  have test: "get_chunk_size_given_prompt compact_test_helper '''' 1 1 = Inr 4"
    by (simp add: get_chunk_size_given_prompt_def compact_test_helper_budget)
       (simp add: compact_test_helper_def)
  from ret fits plain largest test show ?thesis by blast
qed

text \<open>
  The witness: the helper of the test, with the prompt \<open>What is?\<close> of two tokens: the
  budget is 8, the cap of 4 is smaller, and 4 is returned.
\<close>

theorem chunk_size_fits_and_is_largest_witness:
  "get_chunk_size_given_prompt compact_test_helper ''What is?'' 1 1 = Inr 4
   \<and> fits_padded compact_test_helper ''What is?'' 1 1 4"
proof -
  have b: "available_budget compact_test_helper ''What is?'' 1 1 = 8"
    by (simp add: available_budget_def num_prompt_tokens_def compact_test_helper_def
        mock_tokenizer_def)
  have l: "chunk_size_limit compact_test_helper = Some 4"
    by (simp add: compact_test_helper_def)
  from chunk_size_fits_and_is_largest [of 1 1 compact_test_helper "''What is?''"]
  show ?thesis
    by (auto simp add: b l)
qed

text \<open>
  Claim C1 as it is stated fails: with a padding of 1 and a cap of 20 that does not
  bind, the helper of the test returns 10 for the empty prompt, although 11 tokens
  satisfy the inequality without padding as well.
\<close>

theorem chunk_size_not_largest_unpadded:
  "get_chunk_size_given_prompt (compact_test_helper\<lparr>chunk_size_limit := Some 20\<rparr>) '''' 1 1
     = Inr 10
   \<and> num_prompt_tokens (compact_test_helper\<lparr>chunk_size_limit := Some 20\<rparr>) ''''
       + num_output (compact_test_helper\<lparr>chunk_size_limit := Some 20\<rparr>) + 1 * 11
     \<le> max_input_size (compact_test_helper\<lparr>chunk_size_limit := Some 20\<rparr>)"
  by (simp add: get_chunk_size_given_prompt_def available_budget_def num_prompt_tokens_def
      compact_test_helper_def mock_tokenizer_def)

end
